theory Spec2Isabelle
  imports Complex_Main "HOL-Library.AList"
begin

section \<open>Python values\<close>

text \<open>
  The exceptions the modelled code can raise. \<open>UnboundLocalError\<close> is a subclass of
  \<open>NameError\<close> in Python and is represented by \<open>NameError\<close>.
\<close>

datatype exn =
    TypeError
  | AttributeError
  | NameError
  | KeyError
  | ValueError
  | OverflowError
  | HTTPError int
  | OtherError string

text \<open>
  The objects that flow through the library: decoded JSON (\<open>None\<close>, booleans, integers,
  strings, lists, dicts with string keys, kept in insertion order), a
  \<open>requests.Response\<close> with its status code and its decoded body (\<open>None\<close> when the body
  is not JSON, so that \<open>resp.json()\<close> raises), and a generator object that has not been
  started.
\<close>

datatype pyval =
    VNone
  | VBool bool
  | VInt int
  | VStr string
  | VList "pyval list"
  | VDict "(string \<times> pyval) list"
  | VResp int "pyval option"
  | VGenerator

type_synonym kwargs = "(string \<times> pyval) list"

text \<open>
  Truth value testing. A \<open>Response\<close> is truthy when \<open>raise_for_status\<close> would not raise,
  that is, when its status code is not in 400..599. A generator object is always truthy.
\<close>

fun truthy :: "pyval \<Rightarrow> bool" where
  "truthy VNone = False"
| "truthy (VBool b) = b"
| "truthy (VInt n) = (n \<noteq> 0)"
| "truthy (VStr s) = (s \<noteq> [])"
| "truthy (VList xs) = (xs \<noteq> [])"
| "truthy (VDict d) = (d \<noteq> [])"
| "truthy (VResp status body) = (\<not> (400 \<le> status \<and> status < 600))"
| "truthy VGenerator = True"

text \<open>\<open>d.pop(k, dflt)\<close>: the value and the dict without the key.\<close>

definition dict_pop :: "kwargs \<Rightarrow> string \<Rightarrow> pyval \<Rightarrow> pyval \<times> kwargs" where
  "dict_pop d k dflt =
     (case map_of d k of
        None \<Rightarrow> (dflt, d)
      | Some v \<Rightarrow> (v, AList.delete k d))"

text \<open>\<open>d.update(e)\<close>: the entries of \<open>e\<close> override those of \<open>d\<close>, one by one.\<close>

definition dict_update :: "kwargs \<Rightarrow> kwargs \<Rightarrow> kwargs" where
  "dict_update d e = fold (\<lambda>(k, v). AList.update k v) e d"

text \<open>
  \<open>obj.get(key, dflt)\<close>. Only a dict has \<open>get\<close>; every other object raises
  \<open>AttributeError\<close>. A list or a dict as key is unhashable (\<open>TypeError\<close>); the keys of
  a decoded JSON object are strings, so any other hashable key is absent.
\<close>

fun py_get :: "pyval \<Rightarrow> pyval \<Rightarrow> pyval \<Rightarrow> exn + pyval" where
  "py_get (VDict d) (VStr k) dflt = Inr (case map_of d k of None \<Rightarrow> dflt | Some v \<Rightarrow> v)"
| "py_get (VDict d) (VList ks) dflt = Inl TypeError"
| "py_get (VDict d) (VDict ks) dflt = Inl TypeError"
| "py_get (VDict d) k dflt = Inr dflt"
| "py_get obj k dflt = Inl AttributeError"

text \<open>\<open>resp.json()\<close>.\<close>

fun resp_json :: "pyval \<Rightarrow> exn + pyval" where
  "resp_json (VResp status (Some body)) = Inr body"
| "resp_json (VResp status None) = Inl ValueError"
| "resp_json obj = Inl AttributeError"

section \<open>nationbuilder_api/helpers.py: resource filters\<close>

text \<open>
  A filter is a single attribute name or a list of entries; an entry is an attribute name
  or a pair of an attribute name and a nested filter.
\<close>

datatype rfilter =
    Attr string
  | Attrs "fentry list"
and fentry =
    Leaf string
  | Nested string rfilter

text \<open>
  \<open>handle_filter(resource, filter)\<close>, with the dict \<open>filtered_resource\<close> built so far as
  last argument. For a string entry the value is \<open>resource.get(attr)\<close>. For a pair the
  source evaluates \<open>handle_filter(attr[1])(resource[attr[0]])\<close>: the callee expression
  \<open>handle_filter(attr[1])\<close> is evaluated first and calls the two-parameter function with
  one argument, which raises \<open>TypeError\<close> before \<open>resource[attr[0]]\<close> is looked at.
\<close>

fun handle_filter_from :: "pyval \<Rightarrow> fentry list \<Rightarrow> (string \<times> pyval) list \<Rightarrow> exn + pyval" where
  "handle_filter_from resource [] filtered_resource = Inr (VDict filtered_resource)"
| "handle_filter_from resource (Leaf attr # rest) filtered_resource =
     (case py_get resource (VStr attr) VNone of
        Inl e \<Rightarrow> Inl e
      | Inr v \<Rightarrow> handle_filter_from resource rest (AList.update attr v filtered_resource))"
| "handle_filter_from resource (Nested attr sub # rest) filtered_resource = Inl TypeError"

definition handle_filter :: "pyval \<Rightarrow> fentry list \<Rightarrow> exn + pyval" where
  "handle_filter resource flt = handle_filter_from resource flt []"

text \<open>\<open>filter_resource(resource, filter)\<close>.\<close>

fun filter_resource :: "pyval \<Rightarrow> rfilter \<Rightarrow> exn + pyval" where
  "filter_resource resource (Attr name) = py_get resource (VStr name) VNone"
| "filter_resource resource (Attrs entries) = handle_filter resource entries"

text \<open>Filtering the result of a first filtering again with the same filter.\<close>

definition filter_twice :: "pyval \<Rightarrow> rfilter \<Rightarrow> exn + pyval" where
  "filter_twice resource flt =
     (case filter_resource resource flt of
        Inl e \<Rightarrow> Inl e
      | Inr once \<Rightarrow> filter_resource once flt)"

text \<open>The attribute names of the string entries of a filter list, and whether all
  entries are string entries.\<close>

fun is_leaf :: "fentry \<Rightarrow> bool" where
  "is_leaf (Leaf a) = True"
| "is_leaf (Nested a sub) = False"

fun entry_name :: "fentry \<Rightarrow> string" where
  "entry_name (Leaf a) = a"
| "entry_name (Nested a sub) = a"

text \<open>\<open>d.get(a)\<close> on a dict, as a value.\<close>

definition lookup :: "(string \<times> pyval) list \<Rightarrow> string \<Rightarrow> pyval" where
  "lookup d a = (case map_of d a of None \<Rightarrow> VNone | Some v \<Rightarrow> v)"



section \<open>nationbuilder_api/endpoints/decorators.py: handle_pagination\<close>

text \<open>The session logger: the records written, with their level.\<close>

datatype level = DEBUG | INFO | WARNING | ERROR | CRITICAL

type_synonym log = "(level \<times> string) list"

text \<open>\<open>logger.exception(msg)\<close> writes at level \<open>ERROR\<close> (with the traceback), as
  \<open>logger.error(msg)\<close> does.\<close>

definition logger_exception :: "string \<Rightarrow> log \<Rightarrow> log" where
  "logger_exception msg lg = lg @ [(ERROR, msg)]"

definition logger_error :: "string \<Rightarrow> log \<Rightarrow> log" where
  "logger_error msg lg = lg @ [(ERROR, msg)]"

text \<open>
  The wrapped endpoint method \<open>f(self, *args, **kwargs)\<close>: from the keyword arguments and
  the state of the outside world (the server) to a response or a raised exception, and
  the new state of the world.
\<close>

type_synonym 'w call = "kwargs \<Rightarrow> 'w \<Rightarrow> (exn + pyval) \<times> 'w"

text \<open>
  \<open>len(resps) == max_resps\<close>. An integer is compared by value, \<open>True\<close> and \<open>False\<close>
  count as 1 and 0, and no other object of the model equals an integer.
\<close>

fun len_eq :: "nat \<Rightarrow> pyval \<Rightarrow> bool" where
  "len_eq n (VInt m) = (int n = m)"
| "len_eq n (VBool b) = (int n = (if b then 1 else 0))"
| "len_eq n v = False"

text \<open>\<open>resp.json().get("next")\<close>.\<close>

definition next_link :: "pyval \<Rightarrow> exn + pyval" where
  "next_link resp =
     (case resp_json resp of
        Inl e \<Rightarrow> Inl e
      | Inr body \<Rightarrow> py_get body (VStr ''next'') VNone)"

text \<open>
  The \<open>while\<close> loop of \<open>dec_f\<close>, lines 37 to 50. \<open>parse_qs\<close> stands for
  \<open>parse_qs(urlparse(next_page).query)\<close> of the standard library and is a parameter.
  The result is the exception that left the loop, if any, the list \<open>resps\<close>, the values
  yielded so far and the state of the world. In streaming mode \<open>resps\<close> is not bound in
  the source and stays empty here. The loop runs as long as the server gives a
  \<open>next\<close> link, so it need not end: not returning is \<open>None\<close>.
\<close>

partial_function (option) pagination_loop ::
  "'w call \<Rightarrow> (pyval \<Rightarrow> exn + kwargs) \<Rightarrow> bool \<Rightarrow> pyval \<Rightarrow> kwargs \<Rightarrow> pyval list \<Rightarrow> pyval list \<Rightarrow> 'w
     \<Rightarrow> (exn option \<times> pyval list \<times> pyval list \<times> 'w) option"
where
  "pagination_loop f parse_qs yield_resps max_resps kwargs resps yielded w =
     (if yield_resps \<or> \<not> len_eq (length resps) max_resps then
        (case f kwargs w of
           (Inl e, w') \<Rightarrow> Some (Some e, resps, yielded, w')
         | (Inr resp, w') \<Rightarrow>
             (let resps' = (if \<not> yield_resps then resps @ [resp] else resps);
                  yielded' = (if \<not> yield_resps then yielded else yielded @ [resp])
              in case next_link resp of
                   Inl e \<Rightarrow> Some (Some e, resps', yielded', w')
                 | Inr next_page \<Rightarrow>
                     if truthy next_page then
                       (case parse_qs next_page of
                          Inl e \<Rightarrow> Some (Some e, resps', yielded', w')
                        | Inr q \<Rightarrow>
                            pagination_loop f parse_qs yield_resps max_resps
                              (dict_update kwargs q) resps' yielded' w')
                     else Some (None, resps', yielded', w')))
      else Some (None, resps, yielded, w))"

declare pagination_loop.simps [code]

text \<open>
  The body of \<open>dec_f\<close> contains \<open>yield resp\<close> (line 43), so \<open>dec_f\<close> is a generator
  function in both modes: a call runs none of the body, sends no request and returns a
  generator object.
\<close>

definition handle_pagination_call :: "'w call" where
  "handle_pagination_call kwargs w = (Inr VGenerator, w)"

text \<open>
  What iterating that generator to its end does: the values it yields, how it ends (the
  value of \<open>return\<close>, which Python carries in \<open>StopIteration\<close>, or the exception that
  propagates), what it logs, and the world afterwards.
\<close>

record 'w run =
  yielded :: "pyval list"
  outcome :: "exn + pyval"
  logged :: log
  world :: 'w

definition PARTIAL_MSG :: string where
  "PARTIAL_MSG = ''An error occured - a partial list of responses may be returned.''"

definition handle_pagination_body ::
  "'w call \<Rightarrow> (pyval \<Rightarrow> exn + kwargs) \<Rightarrow> kwargs \<Rightarrow> 'w \<Rightarrow> 'w run option" where
  "handle_pagination_body f parse_qs kwargs w =
     (let (yield_resps, kwargs1) = dict_pop kwargs ''yield_resps'' (VBool False);
          (max_resps, kwargs2) =
             (if \<not> truthy yield_resps then dict_pop kwargs1 ''max_resps'' (VInt (- 1))
              else (VNone, kwargs1))
      in case pagination_loop f parse_qs (truthy yield_resps) max_resps kwargs2 [] [] w of
           None \<Rightarrow> None
         | Some (None, resps, ys, w') \<Rightarrow>
             Some \<lparr>yielded = ys,
                   outcome = Inr (if \<not> truthy yield_resps then VList resps else VNone),
                   logged = [], world = w'\<rparr>
         | Some (Some e, resps, ys, w') \<Rightarrow>
             if \<not> truthy yield_resps \<and> resps \<noteq> [] then
               Some \<lparr>yielded = ys, outcome = Inr (VList resps),
                     logged = logger_exception PARTIAL_MSG [], world = w'\<rparr>
             else Some \<lparr>yielded = ys, outcome = Inl e, logged = [], world = w'\<rparr>)"

subsection \<open>A server that answers from a script\<close>

text \<open>
  The test double for the wrapped method: each call records its keyword arguments and
  answers with the next scripted page or exception.
\<close>

record server =
  pending :: "(exn + pyval) list"
  seen :: "kwargs list"

definition scripted :: "server call" where
  "scripted kwargs sv =
     (case pending sv of
        [] \<Rightarrow> (Inl (OtherError ''no more pages''), sv\<lparr>seen := seen sv @ [kwargs]\<rparr>)
      | x # xs \<Rightarrow> (x, \<lparr>pending = xs, seen = seen sv @ [kwargs]\<rparr>))"

text \<open>A page carries a \<open>next\<close> link that parses, or carries none.\<close>

definition has_next :: "(pyval \<Rightarrow> exn + kwargs) \<Rightarrow> pyval \<Rightarrow> bool" where
  "has_next parse_qs p =
     (case next_link p of
        Inl e \<Rightarrow> False
      | Inr next_page \<Rightarrow>
          truthy next_page \<and> (case parse_qs next_page of Inl e \<Rightarrow> False | Inr q \<Rightarrow> True))"

definition no_next :: "pyval \<Rightarrow> bool" where
  "no_next p = (case next_link p of Inl e \<Rightarrow> False | Inr next_page \<Rightarrow> \<not> truthy next_page)"

text \<open>The query parameters of the \<open>next\<close> link of a page, the keyword arguments of the
  request for each page of a list, and the keyword arguments after the list.\<close>

definition cursor :: "(pyval \<Rightarrow> exn + kwargs) \<Rightarrow> pyval \<Rightarrow> kwargs" where
  "cursor parse_qs p =
     (case next_link p of
        Inl e \<Rightarrow> []
      | Inr next_page \<Rightarrow> (case parse_qs next_page of Inl e \<Rightarrow> [] | Inr q \<Rightarrow> q))"

fun requests :: "(pyval \<Rightarrow> exn + kwargs) \<Rightarrow> kwargs \<Rightarrow> pyval list \<Rightarrow> kwargs list" where
  "requests parse_qs kwargs [] = []"
| "requests parse_qs kwargs (p # ps) =
     kwargs # requests parse_qs (dict_update kwargs (cursor parse_qs p)) ps"

fun advance :: "(pyval \<Rightarrow> exn + kwargs) \<Rightarrow> kwargs \<Rightarrow> pyval list \<Rightarrow> kwargs" where
  "advance parse_qs kwargs [] = kwargs"
| "advance parse_qs kwargs (p # ps) = advance parse_qs (dict_update kwargs (cursor parse_qs p)) ps"

text \<open>A page with a JSON object as body, and a stand-in for the parsing of a \<open>next\<close>
  link, used at concrete inputs: the link itself becomes the page token.\<close>

definition page :: "kwargs \<Rightarrow> pyval" where
  "page body = VResp 200 (Some (VDict body))"

definition token_of_link :: "pyval \<Rightarrow> exn + kwargs" where
  "token_of_link v =
     (case v of VStr s \<Rightarrow> Inr [(''__token'', VList [VStr s])] | _ \<Rightarrow> Inl AttributeError)"

text \<open>Whether a record of the given level was logged.\<close>

definition logs_at :: "level \<Rightarrow> log \<Rightarrow> bool" where
  "logs_at lv lg = (lv \<in> fst ` set lg)"

section \<open>nationbuilder_api/resp_procs.py: response processors\<close>

text \<open>
  The functions that process a response: the inner function \<open>f\<close> of
  \<open>payload_filter(filter)\<close>, the inner function of \<open>check_for_status(*status)\<close>, and
  \<open>resp_bool\<close>. A processor is such a function, or a \<open>functools.partial\<close> of one with
  keyword arguments bound.
\<close>

datatype func =
    PayloadFilterF "rfilter option"
  | CheckForStatusF "int list"
  | RespBoolF

datatype resp_proc =
    Function func
  | Partial func kwargs

text \<open>\<open>co_varnames[1 : co_argcount]\<close>: the parameters of the function after \<open>resp\<close>.\<close>

fun extra_params :: "func \<Rightarrow> string list" where
  "extra_params (PayloadFilterF flt) = [''resource_name'']"
| "extra_params (CheckForStatusF status) = []"
| "extra_params RespBoolF = []"

fun rfilter_truthy :: "rfilter option \<Rightarrow> bool" where
  "rfilter_truthy None = False"
| "rfilter_truthy (Some (Attr name)) = (name \<noteq> [])"
| "rfilter_truthy (Some (Attrs entries)) = (entries \<noteq> [])"

text \<open>The loop of \<open>payload_filter\<close> over a list of resources.\<close>

fun filter_resources :: "pyval list \<Rightarrow> rfilter \<Rightarrow> pyval list \<Rightarrow> exn + pyval" where
  "filter_resources [] flt filtered_resources = Inr (VList filtered_resources)"
| "filter_resources (rsrc # rest) flt filtered_resources =
     (case filter_resource rsrc flt of
        Inl e \<Rightarrow> Inl e
      | Inr v \<Rightarrow> filter_resources rest flt (filtered_resources @ [v]))"

text \<open>
  Calling a function with a response and keyword arguments. A keyword that the function
  does not take raises \<open>TypeError\<close>.
\<close>

fun call_func :: "func \<Rightarrow> pyval \<Rightarrow> kwargs \<Rightarrow> exn + pyval" where
  "call_func (PayloadFilterF flt) resp keywords =
     (if \<not> fst ` set keywords \<subseteq> {''resource_name''} then Inl TypeError
      else case resp_json resp of
        Inl e \<Rightarrow> Inl e
      | Inr payload \<Rightarrow>
          (case py_get payload (lookup keywords ''resource_name'') payload of
             Inl e \<Rightarrow> Inl e
           | Inr resource \<Rightarrow>
               if truthy resource \<and> rfilter_truthy flt then
                 (case (resource, flt) of
                    (VList resources, Some fl) \<Rightarrow> filter_resources resources fl []
                  | (_, Some fl) \<Rightarrow> filter_resource resource fl
                  | (_, None) \<Rightarrow> Inr resource)
               else Inr resource))"
| "call_func (CheckForStatusF status) resp keywords =
     (if keywords \<noteq> [] then Inl TypeError
      else case resp of
        VResp status_code body \<Rightarrow> Inr (VBool (status_code \<in> set status))
      | _ \<Rightarrow> Inl AttributeError)"
| "call_func RespBoolF resp keywords =
     (if keywords \<noteq> [] then Inl TypeError
      else Inr (if truthy resp then VBool True else resp))"

fun call_proc :: "resp_proc \<Rightarrow> pyval \<Rightarrow> exn + pyval" where
  "call_proc (Function fn) resp = call_func fn resp []"
| "call_proc (Partial fn keywords) resp = call_func fn resp keywords"

definition payload_filter :: "rfilter option \<Rightarrow> pyval \<Rightarrow> resp_proc" where
  "payload_filter flt resource_name =
     (if truthy resource_name then Partial (PayloadFilterF flt) [(''resource_name'', resource_name)]
      else Function (PayloadFilterF flt))"

definition check_for_status :: "int list \<Rightarrow> resp_proc" where
  "check_for_status status = Function (CheckForStatusF status)"

definition resp_bool :: resp_proc where
  "resp_bool = Function RespBoolF"

section \<open>nationbuilder_api/endpoints/helpers.py\<close>

text \<open>
  \<open>handle_resp_proc_args(resp_proc, resp_proc_args)\<close>. With a non-empty
  \<open>resp_proc_args\<close>, \<open>resp_proc_arg_keys\<close> is a dict keys view. When the processor is a
  partial (it has \<open>keywords\<close>), \<open>resp_proc_arg_keys -= resp_proc.keywords.keys()\<close>
  rebinds the name to a \<open>set\<close>, and \<open>resp_proc_arg_keys & co_varnames[...]\<close>, a set
  and a tuple, raises \<open>TypeError\<close>. When the processor is a plain function the keys
  view and the tuple intersect, and the result is the partial with those arguments
  bound.
\<close>

fun handle_resp_proc_args :: "resp_proc \<Rightarrow> kwargs \<Rightarrow> exn + resp_proc" where
  "handle_resp_proc_args resp_proc [] = Inr resp_proc"
| "handle_resp_proc_args (Partial fn keywords) resp_proc_args = Inl TypeError"
| "handle_resp_proc_args (Function fn) resp_proc_args =
     Inr (Partial fn (filter (\<lambda>(arg, v). arg \<in> set (extra_params fn)) resp_proc_args))"

text \<open>
  The \<open>resp_proc\<close> of an endpoint call: none (\<open>None\<close>), one processor, or a list of
  processors.
\<close>

datatype procs =
    NoProc
  | Single resp_proc
  | Chain "resp_proc list"

fun procs_truthy :: "procs \<Rightarrow> bool" where
  "procs_truthy NoProc = False"
| "procs_truthy (Single rp) = True"
| "procs_truthy (Chain rps) = (rps \<noteq> [])"

fun proc_chain :: "resp_proc list \<Rightarrow> kwargs \<Rightarrow> pyval \<Rightarrow> exn + pyval" where
  "proc_chain [] resp_proc_args resp = Inr resp"
| "proc_chain (rp # rps) resp_proc_args resp =
     (case handle_resp_proc_args rp resp_proc_args of
        Inl e \<Rightarrow> Inl e
      | Inr p \<Rightarrow>
          (case call_proc p resp of
             Inl e \<Rightarrow> Inl e
           | Inr resp' \<Rightarrow> proc_chain rps resp_proc_args resp'))"

text \<open>\<open>proc_resp(resp, resp_proc, resp_proc_args)\<close>. \<open>None\<close> is neither callable nor
  iterable.\<close>

fun proc_resp :: "pyval \<Rightarrow> procs \<Rightarrow> kwargs \<Rightarrow> exn + pyval" where
  "proc_resp resp (Single rp) resp_proc_args =
     (case handle_resp_proc_args rp resp_proc_args of
        Inl e \<Rightarrow> Inl e
      | Inr p \<Rightarrow> call_proc p resp)"
| "proc_resp resp (Chain rps) resp_proc_args = proc_chain rps resp_proc_args resp"
| "proc_resp resp NoProc resp_proc_args = Inl TypeError"

section \<open>nationbuilder_api/endpoints/decorators.py: handle_resp_proc\<close>

definition RESP_PROC_ARGS :: "string list" where
  "RESP_PROC_ARGS = [''resource_name'']"

definition NOT_ALL_MSG :: string where
  "NOT_ALL_MSG = ''Not all requests were successful - unprocessed ''
     @ replicate 24 (CHR '' '') @ ''response(s) will be returned.''"

text \<open>
  What a decorated method keeps between calls: the dict \<open>resp_proc_args\<close> of the
  decorator call, which the closure of every invocation shares, the log of the session
  and the outside world.
\<close>

record 'w deco =
  resp_proc_args :: kwargs
  session_log :: log
  outside :: 'w

text \<open>
  One round of the loop of lines 90 to 94, for an argument that \<open>resp_proc_args\<close> does not
  have. In \<open>getattr(f, arg, getattr(self, arg))\<close> the default \<open>getattr(self, arg)\<close> is
  evaluated first: when the endpoint has no such attribute it raises
  \<open>AttributeError\<close>, which is passed over, and nothing is stored.
\<close>

definition resolve_arg ::
  "(string \<Rightarrow> pyval option) \<Rightarrow> (string \<Rightarrow> pyval option) \<Rightarrow> string \<Rightarrow> kwargs \<Rightarrow> kwargs" where
  "resolve_arg f_attr self_attr arg args =
     (case self_attr arg of
        None \<Rightarrow> args
      | Some self_value \<Rightarrow>
          AList.update arg (case f_attr arg of None \<Rightarrow> self_value | Some f_value \<Rightarrow> f_value) args)"

definition resolve_args ::
  "(string \<Rightarrow> pyval option) \<Rightarrow> (string \<Rightarrow> pyval option) \<Rightarrow> kwargs \<Rightarrow> kwargs" where
  "resolve_args f_attr self_attr args =
     fold (resolve_arg f_attr self_attr)
       (filter (\<lambda>arg. arg \<notin> fst ` set args) RESP_PROC_ARGS) args"

text \<open>
  Iterating an object, as \<open>resps += ...\<close> does. A \<open>Response\<close> and a generator are iterable
  too; no processor of the model returns one to this place, and the model gives them no
  items.
\<close>

fun py_iter :: "pyval \<Rightarrow> exn + pyval list" where
  "py_iter (VList xs) = Inr xs"
| "py_iter (VDict d) = Inr (map (\<lambda>(k, v). VStr k) d)"
| "py_iter (VStr s) = Inr (map (\<lambda>c. VStr [c]) s)"
| "py_iter (VResp status body) = Inr []"
| "py_iter VGenerator = Inr []"
| "py_iter v = Inl TypeError"

text \<open>The loop of lines 104 to 107 over the list of responses.\<close>

fun proc_resps :: "pyval list \<Rightarrow> procs \<Rightarrow> kwargs \<Rightarrow> pyval list \<Rightarrow> exn + pyval" where
  "proc_resps [] resp_proc args resps = Inr (VList resps)"
| "proc_resps (resp # rest) resp_proc args resps =
     (case proc_resp resp resp_proc args of
        Inl e \<Rightarrow> Inl e
      | Inr v \<Rightarrow>
          (case py_iter v of
             Inl e \<Rightarrow> Inl e
           | Inr items \<Rightarrow> proc_resps rest resp_proc args (resps @ items)))"

text \<open>
  \<open>dec_f\<close> of \<open>handle_resp_proc(resp_proc_dflt, **resp_proc_args)(f)\<close>. The keyword
  argument \<open>resp_proc\<close> of the call is \<open>resp_proc_kw\<close> (\<open>None\<close> when the caller gives
  none), the other keyword arguments are \<open>kwargs\<close>; \<open>f_attr\<close> and \<open>self_attr\<close> give the
  attributes of the wrapped function and of the endpoint object.
\<close>

definition handle_resp_proc ::
  "procs \<Rightarrow> 'w call \<Rightarrow> (string \<Rightarrow> pyval option) \<Rightarrow> (string \<Rightarrow> pyval option)
     \<Rightarrow> procs option \<Rightarrow> kwargs \<Rightarrow> 'w deco \<Rightarrow> (exn + pyval) \<times> 'w deco" where
  "handle_resp_proc resp_proc_dflt f f_attr self_attr resp_proc_kw kwargs st =
     (let resp_proc = (case resp_proc_kw of None \<Rightarrow> resp_proc_dflt | Some rp \<Rightarrow> rp)
      in case f kwargs (outside st) of
           (Inl e, w') \<Rightarrow> (Inl e, st\<lparr>outside := w'\<rparr>)
         | (Inr res, w') \<Rightarrow>
             if procs_truthy resp_proc \<and> truthy res then
               (let args = resolve_args f_attr self_attr (resp_proc_args st);
                    st' = st\<lparr>resp_proc_args := args, outside := w'\<rparr>
                in case res of
                     VList rs \<Rightarrow>
                       if list_all truthy rs then (proc_resps rs resp_proc args [], st')
                       else (Inr res, st'\<lparr>session_log := logger_error NOT_ALL_MSG (session_log st')\<rparr>)
                   | _ \<Rightarrow> (proc_resp res resp_proc args, st'))
             else (Inr res, st\<lparr>outside := w'\<rparr>))"


text \<open>A wrapped method that returns a fixed object, and an object with the single
  attribute \<open>resource_name\<close>.\<close>

definition returns :: "pyval \<Rightarrow> unit call" where
  "returns v kwargs w = (Inr v, w)"

definition only_resource_name :: "pyval \<Rightarrow> string \<Rightarrow> pyval option" where
  "only_resource_name v attr = (if attr = ''resource_name'' then Some v else None)"

definition no_attrs :: "string \<Rightarrow> pyval option" where
  "no_attrs attr = None"

section \<open>Python floats\<close>

text \<open>
  A Python float is an IEEE 754 binary64 value: a finite number, given here by the real
  number it denotes (the sign of a zero is not kept), an infinity, or NaN.
\<close>

datatype double = Finite real | PosInf | NegInf | NaN

text \<open>The number of binary digits of a positive integer.\<close>

function bit_length :: "int \<Rightarrow> int" where
  "bit_length n = (if n \<le> 0 then 0 else 1 + bit_length (n div 2))"
  by pat_completeness auto
termination
  by (relation "measure nat") auto

declare bit_length.simps [simp del]

definition pow2 :: "int \<Rightarrow> real" where
  "pow2 e = (if 0 \<le> e then 2 ^ nat e else 1 / 2 ^ nat (- e))"

text \<open>For \<open>q > 0\<close>, the exponent \<open>e\<close> with \<open>2 ^ e \<le> q < 2 ^ (e + 1)\<close>.\<close>

definition ilog2 :: "real \<Rightarrow> int" where
  "ilog2 q = (if 1 \<le> q then bit_length \<lfloor>q\<rfloor> - 1 else - bit_length (\<lceil>1 / q\<rceil> - 1))"

text \<open>To the nearest integer, a tie to the even one, as \<open>round(x)\<close> does.\<close>

definition round_half_even :: "real \<Rightarrow> int" where
  "round_half_even x =
     (let f = \<lfloor>x\<rfloor>; d = x - of_int f
      in if d < 1 / 2 then f
         else if 1 / 2 < d then f + 1
         else if even f then f else f + 1)"

text \<open>
  Rounding a real number to binary64, to nearest with ties to even: 53 significant bits,
  the spacing \<open>2 ^ (- 1074)\<close> below \<open>2 ^ (- 1022)\<close>, and an infinity when the rounded
  value reaches \<open>2 ^ 1024\<close>.
\<close>

definition to_double :: "real \<Rightarrow> double" where
  "to_double q =
     (if q = 0 then Finite 0
      else
        (let quantum = pow2 (max (ilog2 \<bar>q\<bar>) (- 1022) - 52);
             v = of_int (round_half_even (q / quantum)) * quantum
         in if pow2 1024 \<le> \<bar>v\<bar> then (if 0 < q then PosInf else NegInf) else Finite v))"

text \<open>\<open>x * y\<close> on floats: the exact product, rounded; never an exception.\<close>

fun f_mul :: "double \<Rightarrow> double \<Rightarrow> double" where
  "f_mul (Finite a) (Finite b) = to_double (a * b)"
| "f_mul NaN y = NaN"
| "f_mul x NaN = NaN"
| "f_mul (Finite a) PosInf = (if a = 0 then NaN else if 0 < a then PosInf else NegInf)"
| "f_mul (Finite a) NegInf = (if a = 0 then NaN else if 0 < a then NegInf else PosInf)"
| "f_mul PosInf (Finite b) = (if b = 0 then NaN else if 0 < b then PosInf else NegInf)"
| "f_mul NegInf (Finite b) = (if b = 0 then NaN else if 0 < b then NegInf else PosInf)"
| "f_mul PosInf PosInf = PosInf"
| "f_mul PosInf NegInf = NegInf"
| "f_mul NegInf PosInf = NegInf"
| "f_mul NegInf NegInf = PosInf"

fun f_neg :: "double \<Rightarrow> double" where
  "f_neg (Finite a) = Finite (- a)"
| "f_neg PosInf = NegInf"
| "f_neg NegInf = PosInf"
| "f_neg NaN = NaN"

text \<open>\<open>0 < x\<close> and \<open>x <= y\<close> on floats: every comparison with NaN is false.\<close>

fun f_pos :: "double \<Rightarrow> bool" where
  "f_pos (Finite a) = (0 < a)"
| "f_pos PosInf = True"
| "f_pos NegInf = False"
| "f_pos NaN = False"

fun f_le :: "double \<Rightarrow> double \<Rightarrow> bool" where
  "f_le (Finite a) (Finite b) = (a \<le> b)"
| "f_le NaN y = False"
| "f_le x NaN = False"
| "f_le NegInf y = True"
| "f_le x PosInf = True"
| "f_le PosInf y = False"
| "f_le x NegInf = False"

text \<open>
  \<open>n / 100\<close> on an integer: the quotient rounded to a float, \<open>OverflowError\<close> when it
  is too large. \<open>math.floor(x)\<close> and \<open>round(x)\<close> on a float.
\<close>

definition int_div_100 :: "int \<Rightarrow> exn + double" where
  "int_div_100 n =
     (case to_double (of_int n / 100) of
        Finite v \<Rightarrow> Inr (Finite v)
      | _ \<Rightarrow> Inl OverflowError)"

fun py_floor :: "double \<Rightarrow> exn + int" where
  "py_floor (Finite a) = Inr \<lfloor>a\<rfloor>"
| "py_floor NaN = Inl ValueError"
| "py_floor x = Inl OverflowError"

fun py_round :: "double \<Rightarrow> exn + int" where
  "py_round (Finite a) = Inr (round_half_even a)"
| "py_round NaN = Inl ValueError"
| "py_round x = Inl OverflowError"

section \<open>platforms/shopify/tasks.py: create_discount\<close>

text \<open>
  The value of a field of the person as NationBuilder returns it: \<open>null\<close>, a boolean, an
  integer, a number with a fraction or a string that spells a decimal number (given by
  that number), a spelling of an infinity or of NaN, a string that \<open>float\<close> does not
  accept, or a list or object.
\<close>

datatype field =
    Null
  | Boolean bool
  | Integer int
  | Decimal real
  | Infinity bool
  | NotANumber
  | Text string
  | Container

text \<open>
  \<open>float(x)\<close>. An integer too large for a float raises \<open>OverflowError\<close>; a decimal
  spelling is rounded, to an infinity if need be.
\<close>

fun py_float :: "field \<Rightarrow> exn + double" where
  "py_float Null = Inl TypeError"
| "py_float (Boolean b) = Inr (Finite (if b then 1 else 0))"
| "py_float (Integer n) =
     (case to_double (of_int n) of Finite v \<Rightarrow> Inr (Finite v) | _ \<Rightarrow> Inl OverflowError)"
| "py_float (Decimal q) = Inr (to_double q)"
| "py_float (Infinity positive) = Inr (if positive then PosInf else NegInf)"
| "py_float NotANumber = Inr NaN"
| "py_float (Text s) = Inl ValueError"
| "py_float Container = Inl TypeError"

text \<open>The field that holds a float after it was sent as JSON.\<close>

fun field_of :: "double \<Rightarrow> field" where
  "field_of (Finite a) = Decimal a"
| "field_of PosInf = Infinity True"
| "field_of NegInf = Infinity False"
| "field_of NaN = NotANumber"

text \<open>
  The two outside systems: the person in NationBuilder (the pending-redemption field
  named by \<open>SHOP_PENDING_FIELD\<close>, and the capital balance, which the API gives as an
  integer) and the price rules of the shop, each with its discount codes.
\<close>

record price_rule =
  title :: string
  rule_value :: double
  codes :: "string list"

record shop =
  pending_field :: field
  capital_amount_in_cents :: int
  price_rules :: "price_rule list"

text \<open>
  The requests of the task, in the order of the source. Each may fail: \<open>faults\<close> gives
  the exception a request raises, and a request that raises changes nothing.
  \<open>rule_saved\<close> tells whether the shop accepts the new rule: when it answers 422,
  \<open>PriceRule.create\<close> does not raise and returns the rule unsaved. \<open>new_title\<close> is the
  title drawn at random (an exception when \<open>SHOP_DISCOUNT_LEN\<close> is malformed), and
  \<open>exchange_rate\<close> is \<open>float(os.environ["SHOP_EXCHANGE_RATE"])\<close>.
\<close>

datatype request =
    GetPerson
  | ClearPending
  | CreatePriceRule
  | AddDiscountCode
  | AddCapital
  | DestroyPriceRule
  | RestorePending

record task_env =
  faults :: "request \<Rightarrow> exn option"
  rule_saved :: bool
  new_title :: "exn + string"
  exchange_rate :: "exn + double"

text \<open>The local variable \<open>price_rule\<close>: not bound, bound to a rule that the shop did
  not save, or bound to the saved rule at an index of the shop's list.\<close>

datatype binding = Unbound | Unsaved | Saved nat

text \<open>
  \<open>-(math.floor(redemption * rate * 100) / 100)\<close>, the value of the rule, and
  \<open>-round(redemption * 100)\<close>, the capital to add.
\<close>

definition discount_value :: "double \<Rightarrow> double \<Rightarrow> exn + double" where
  "discount_value redemption rate =
     (case py_floor (f_mul (f_mul redemption rate) (Finite 100)) of
        Inl e \<Rightarrow> Inl e
      | Inr n \<Rightarrow> (case int_div_100 n of Inl e \<Rightarrow> Inl e | Inr v \<Rightarrow> Inr (f_neg v)))"

definition capital_amount :: "double \<Rightarrow> exn + int" where
  "capital_amount redemption =
     (case py_round (f_mul redemption (Finite 100)) of
        Inl e \<Rightarrow> Inl e
      | Inr n \<Rightarrow> Inr (- n))"

text \<open>
  The body of the \<open>try\<close> (lines 35 to 79): the exception raised, if any, the binding of
  \<open>price_rule\<close>, and the state. The dict passed to \<open>PriceRule.create\<close> is built first:
  the title, then the value. The amount of capital is computed before the rest of the
  capital record; building that rest (which reads \<open>price_rule.value\<close>) and sending the
  record are one request here. A discount code is attached only to a saved rule.
\<close>

definition exchange :: "task_env \<Rightarrow> double \<Rightarrow> shop \<Rightarrow> exn option \<times> binding \<times> shop" where
  "exchange env redemption s =
     (case new_title env of
        Inl e \<Rightarrow> (Some e, Unbound, s)
      | Inr ttl \<Rightarrow>
     (case exchange_rate env of
        Inl e \<Rightarrow> (Some e, Unbound, s)
      | Inr rate \<Rightarrow>
     (case discount_value redemption rate of
        Inl e \<Rightarrow> (Some e, Unbound, s)
      | Inr v \<Rightarrow>
     (case faults env CreatePriceRule of
        Some e \<Rightarrow> (Some e, Unbound, s)
      | None \<Rightarrow>
          (let i = length (price_rules s);
               rule = \<lparr>title = ttl, rule_value = v, codes = []\<rparr>;
               bound = (if rule_saved env then Saved i else Unsaved);
               s1 = (if rule_saved env then s\<lparr>price_rules := price_rules s @ [rule]\<rparr> else s)
           in case faults env AddDiscountCode of
                Some e \<Rightarrow> (Some e, bound, s1)
              | None \<Rightarrow>
                  (let s2 = (if rule_saved env
                             then s1\<lparr>price_rules := (price_rules s1)[i := rule\<lparr>codes := [ttl]\<rparr>]\<rparr>
                             else s1)
                   in case capital_amount redemption of
                        Inl e \<Rightarrow> (Some e, bound, s2)
                      | Inr amount \<Rightarrow>
                          (case faults env AddCapital of
                             Some e \<Rightarrow> (Some e, bound, s2)
                           | None \<Rightarrow>
                               (None, bound,
                                s2\<lparr>capital_amount_in_cents :=
                                      capital_amount_in_cents s2 + amount\<rparr>))))))))"

text \<open>
  The handler (lines 81 to 89). \<open>price_rule.destroy()\<close> raises \<open>UnboundLocalError\<close>, a
  \<open>NameError\<close>, when the rule was never bound; a \<open>NameError\<close> is passed over. The
  \<open>finally\<close> clause restores the pending field in every case. Then an exception of
  the restoring request propagates, else another exception of \<open>destroy\<close>, else the
  original exception is raised again.
\<close>

definition rollback :: "task_env \<Rightarrow> double \<Rightarrow> exn \<Rightarrow> binding \<Rightarrow> shop \<Rightarrow> (exn + unit) \<times> shop" where
  "rollback env redemption e bound s =
     (let (destroy_exn, s1) =
            (case bound of
               Unbound \<Rightarrow> (None, s)
             | _ \<Rightarrow>
                 (case faults env DestroyPriceRule of
                    Some e2 \<Rightarrow> (if e2 = NameError then None else Some e2, s)
                  | None \<Rightarrow>
                      (case bound of
                         Saved i \<Rightarrow>
                           (None, s\<lparr>price_rules :=
                                       take i (price_rules s) @ drop (Suc i) (price_rules s)\<rparr>)
                       | _ \<Rightarrow> (None, s))))
      in case faults env RestorePending of
           Some e3 \<Rightarrow> (Inl e3, s1)
         | None \<Rightarrow>
             (Inl (case destroy_exn of None \<Rightarrow> e | Some e2 \<Rightarrow> e2),
              s1\<lparr>pending_field := field_of redemption\<rparr>))"

text \<open>\<open>create_discount(person_id)\<close>, without the lock and session decorators.\<close>

definition create_discount :: "task_env \<Rightarrow> shop \<Rightarrow> (exn + unit) \<times> shop" where
  "create_discount env s =
     (case faults env GetPerson of
        Some e \<Rightarrow> (Inl e, s)
      | None \<Rightarrow>
          (let person_pending = pending_field s;
               person_capital = capital_amount_in_cents s
           in case faults env ClearPending of
                Some e \<Rightarrow> (Inl e, s)
              | None \<Rightarrow>
                  (let s1 = s\<lparr>pending_field := Null\<rparr>
                   in case py_float person_pending of
                        Inl e \<Rightarrow> (Inl e, s1)
                      | Inr redemption \<Rightarrow>
                          (case int_div_100 person_capital of
                             Inl e \<Rightarrow> (Inl e, s1)
                           | Inr capital \<Rightarrow>
                               if f_pos redemption \<and> f_le redemption capital then
                                 (case exchange env redemption s1 of
                                    (None, bound, s2) \<Rightarrow> (Inr (), s2)
                                  | (Some e, bound, s2) \<Rightarrow> rollback env redemption e bound s2)
                               else (Inr (), s1)))))"



definition no_faults :: "request \<Rightarrow> exn option" where
  "no_faults r = None"

section \<open>Properties of the resource filters\<close>

lemma handle_filter_from_flat:
  "\<forall>e\<in>set es. is_leaf e \<Longrightarrow>
   handle_filter_from (VDict d) es acc =
     Inr (VDict (fold (\<lambda>e. AList.update (entry_name e) (lookup d (entry_name e))) es acc))"
proof (induction es arbitrary: acc)
  case Nil
  then show ?case by simp
next
  case (Cons e es)
  then obtain a where e: "e = Leaf a" by (cases e) auto
  from Cons show ?case by (simp add: e lookup_def)
qed

lemma map_of_fold_update:
  "map_of (fold (\<lambda>e. AList.update (entry_name e) (lookup d (entry_name e))) es acc) k =
     (if k \<in> entry_name ` set es then Some (lookup d k) else map_of acc k)"
  by (induction es arbitrary: acc) (auto simp: update_conv)

lemma lookup_fold_update:
  "k \<in> entry_name ` set es \<Longrightarrow>
   lookup (fold (\<lambda>e. AList.update (entry_name e) (lookup d (entry_name e))) es acc) k = lookup d k"
  by (simp add: lookup_def [of "fold _ _ _"] map_of_fold_update)

lemma fold_update_cong:
  "\<forall>e\<in>set es. lookup d1 (entry_name e) = lookup d2 (entry_name e) \<Longrightarrow>
   fold (\<lambda>e. AList.update (entry_name e) (lookup d1 (entry_name e))) es acc =
   fold (\<lambda>e. AList.update (entry_name e) (lookup d2 (entry_name e))) es acc"
  by (induction es arbitrary: acc) auto

text \<open>
  A filter list of string entries never raises on a dict, and an attribute that the
  resource does not have is mapped to \<open>None\<close>.
\<close>

lemma filter_resource_flat_absent:
  assumes "\<forall>e\<in>set entries. is_leaf e" and "Leaf a \<in> set entries" and "a \<notin> fst ` set d"
  shows "\<exists>m. filter_resource (VDict d) (Attrs entries) = Inr (VDict m) \<and> map_of m a = Some VNone"
proof -
  have "a \<in> entry_name ` set entries" using assms(2) by force
  moreover have "map_of d a = None" using assms(3) by (simp add: map_of_eq_None_iff)
  ultimately show ?thesis using assms(1)
    by (simp add: handle_filter_def handle_filter_from_flat map_of_fold_update)
      (simp add: lookup_def)
qed

text \<open>
  Claim C3. Filtering with an entry that names an attribute absent from the resource
  should give \<open>None\<close> for that attribute and never raise, for string entries and for
  (name, sub-filter) entries alike. For string entries this is
  \<open>filter_resource_flat_absent\<close>. For a (name, sub-filter) entry the code raises: on the
  resource \<open>{"id": 1}\<close> and the filter \<open>[("email", ["address"])]\<close> the call
  \<open>handle_filter(attr[1])\<close> lacks its second argument and raises \<open>TypeError\<close>.
\<close>

theorem filter_resource_nested_absent_raises:
  "filter_resource (VDict [(''id'', VInt 1)]) (Attrs [Nested ''email'' (Attrs [Leaf ''address''])])
     = Inl TypeError"
  by (simp add: handle_filter_def)

text \<open>
  Claim C6, as stated: for every filter that names only attributes present on the
  resource, filtering twice gives what filtering once gives. A filter that is a single
  attribute name returns the value of the attribute, not a mapping, so filtering
  \<open>{"a": {"a": 1}}\<close> with \<open>"a"\<close> gives \<open>{"a": 1}\<close> once and \<open>1\<close> twice.
\<close>

theorem filter_twice_single_name_counterexample:
  "filter_twice (VDict [(''a'', VDict [(''a'', VInt 1)])]) (Attr ''a'')
     \<noteq> filter_resource (VDict [(''a'', VDict [(''a'', VInt 1)])]) (Attr ''a'')"
  by (simp add: filter_twice_def)

text \<open>
  Claim C6, amended: for every resource object and every filter list made of attribute
  names that are all present on the resource, filtering returns a mapping, and filtering
  that mapping again with the same list returns the same mapping.
\<close>

theorem filter_resource_flat_idempotent:
  assumes "\<forall>e\<in>set entries. is_leaf e"
    and "\<forall>e\<in>set entries. entry_name e \<in> fst ` set d"
  shows "filter_twice (VDict d) (Attrs entries) = filter_resource (VDict d) (Attrs entries)
       \<and> (\<exists>m. filter_resource (VDict d) (Attrs entries) = Inr (VDict m))"
proof -
  let ?m = "fold (\<lambda>e. AList.update (entry_name e) (lookup d (entry_name e))) entries []"
  have once: "filter_resource (VDict d) (Attrs entries) = Inr (VDict ?m)"
    using assms(1) by (simp add: handle_filter_def handle_filter_from_flat)
  have same: "\<forall>e\<in>set entries. lookup ?m (entry_name e) = lookup d (entry_name e)"
    by (simp add: lookup_fold_update)
  have "filter_resource (VDict ?m) (Attrs entries) = Inr (VDict ?m)"
    using assms(1) fold_update_cong [OF same, of "[]"]
    by (simp add: handle_filter_def handle_filter_from_flat)
  with once show ?thesis by (simp add: filter_twice_def)
qed

theorem filter_resource_flat_idempotent_witness:
  "filter_twice (VDict [(''id'', VInt 1), (''first_name'', VStr ''A'')])
       (Attrs [Leaf ''id'', Leaf ''first_name'', Leaf ''id''])
     = filter_resource (VDict [(''id'', VInt 1), (''first_name'', VStr ''A'')])
       (Attrs [Leaf ''id'', Leaf ''first_name'', Leaf ''id''])
   \<and> filter_resource (VDict [(''id'', VInt 1), (''first_name'', VStr ''A'')])
       (Attrs [Leaf ''id'', Leaf ''first_name'', Leaf ''id''])
     = Inr (VDict [(''id'', VInt 1), (''first_name'', VStr ''A'')])"
  using filter_resource_flat_idempotent
    [of "[Leaf ''id'', Leaf ''first_name'', Leaf ''id'']"
        "[(''id'', VInt 1), (''first_name'', VStr ''A'')]"]
  by (simp add: handle_filter_def)

section \<open>Properties of the pagination\<close>

lemma dict_pop_eq:
  "dict_pop d k dflt = (case map_of d k of None \<Rightarrow> dflt | Some v \<Rightarrow> v, AList.delete k d)"
proof (cases "map_of d k")
  case None
  then have "k \<notin> fst ` set d" by (simp add: map_of_eq_None_iff)
  then show ?thesis using None by (simp add: dict_pop_def delete_id)
next
  case (Some v)
  then show ?thesis by (simp add: dict_pop_def)
qed

lemma loop_pages:
  assumes "\<forall>p\<in>set ps. has_next parse_qs p"
    and "yr \<or> (\<forall>n. \<not> len_eq n m)"
  shows "pagination_loop scripted parse_qs yr m kw resps ys \<lparr>pending = map Inr ps @ rest, seen = sn\<rparr>
       = pagination_loop scripted parse_qs yr m (advance parse_qs kw ps)
           (if yr then resps else resps @ ps) (if yr then ys @ ps else ys)
           \<lparr>pending = rest, seen = sn @ requests parse_qs kw ps\<rparr>"
  using assms
proof (induction ps arbitrary: kw resps ys sn)
  case Nil
  then show ?case by simp
next
  case (Cons p ps)
  from Cons.prems(1) obtain np q where np: "next_link p = Inr np" "truthy np" "parse_qs np = Inr q"
    by (auto simp: has_next_def split: sum.splits)
  have c: "cursor parse_qs p = q" by (simp add: cursor_def np)
  have step: "pagination_loop scripted parse_qs yr m kw resps ys
                \<lparr>pending = map Inr (p # ps) @ rest, seen = sn\<rparr>
            = pagination_loop scripted parse_qs yr m (dict_update kw q)
                (if yr then resps else resps @ [p]) (if yr then ys @ [p] else ys)
                \<lparr>pending = map Inr ps @ rest, seen = sn @ [kw]\<rparr>"
    using Cons.prems(2)
    by (subst pagination_loop.simps) (auto simp: scripted_def np)
  show ?case
  proof (cases yr)
    case True
    then show ?thesis
      using Cons.IH [of "dict_update kw q" resps "ys @ [p]" "sn @ [kw]"] Cons.prems step
      by (simp add: c)
  next
    case False
    then show ?thesis
      using Cons.IH [of "dict_update kw q" "resps @ [p]" ys "sn @ [kw]"] Cons.prems step
      by (simp add: c)
  qed
qed

lemma loop_last:
  assumes "no_next p" and "yr \<or> (\<forall>n. \<not> len_eq n m)"
  shows "pagination_loop scripted parse_qs yr m kw resps ys \<lparr>pending = Inr p # rest, seen = sn\<rparr>
       = Some (None, if yr then resps else resps @ [p], if yr then ys @ [p] else ys,
               \<lparr>pending = rest, seen = sn @ [kw]\<rparr>)"
  using assms
  by (subst pagination_loop.simps) (auto simp: scripted_def no_next_def split: sum.splits)

lemma loop_raise:
  assumes "yr \<or> (\<forall>n. \<not> len_eq n m)"
  shows "pagination_loop scripted parse_qs yr m kw resps ys \<lparr>pending = Inl e # rest, seen = sn\<rparr>
       = Some (Some e, resps, ys, \<lparr>pending = rest, seen = sn @ [kw]\<rparr>)"
  using assms
  by (subst pagination_loop.simps) (auto simp: scripted_def)

lemma requests_snoc:
  "requests parse_qs kw (ps @ [p]) = requests parse_qs kw ps @ [advance parse_qs kw ps]"
  by (induction ps arbitrary: kw) auto

lemma dict_update_keys: "fst ` set d \<subseteq> fst ` set (dict_update d e)"
  unfolding dict_update_def
proof (induction e arbitrary: d)
  case Nil
  then show ?case by simp
next
  case (Cons x e)
  obtain k v where x: "x = (k, v)" by (cases x)
  have "fst ` set d \<subseteq> fst ` set (AList.update k v d)" by (auto simp: dom_update)
  also have "\<dots> \<subseteq> fst ` set (fold (\<lambda>(k, v). AList.update k v) e (AList.update k v d))"
    by (rule Cons.IH)
  finally show ?case by (simp add: x)
qed

lemma requests_keys:
  "kw' \<in> set (requests parse_qs kw ps) \<Longrightarrow> fst ` set kw \<subseteq> fst ` set kw'"
proof (induction ps arbitrary: kw)
  case Nil
  then show ?case by simp
next
  case (Cons p ps)
  show ?case
  proof (cases "kw' = kw")
    case True
    then show ?thesis by simp
  next
    case False
    with Cons.prems have "kw' \<in> set (requests parse_qs (dict_update kw (cursor parse_qs p)) ps)"
      by simp
    then have "fst ` set (dict_update kw (cursor parse_qs p)) \<subseteq> fst ` set kw'"
      by (rule Cons.IH)
    with dict_update_keys [of kw "cursor parse_qs p"] show ?thesis by (rule subset_trans)
  qed
qed

lemma seen_keys:
  assumes "kw' \<in> set (requests parse_qs kw ps @ [advance parse_qs kw ps])"
  shows "fst ` set kw \<subseteq> fst ` set kw'"
  using assms requests_keys [of kw' parse_qs kw "ps @ [VNone]"]
  by (simp add: requests_snoc)

lemma length_requests: "length (requests parse_qs kw ps) = length ps"
  by (induction ps arbitrary: kw) auto

lemma hd_seen: "hd (requests parse_qs kw ps @ [advance parse_qs kw ps]) = kw"
  by (cases ps) auto

text \<open>
  When the script holds pages with a \<open>next\<close> link followed by one page without, the body
  of a call without \<open>yield_resps\<close> and \<open>max_resps\<close> yields nothing and ends by returning
  the list of all pages in order, and the body of a streaming call yields all pages in
  order.
\<close>

lemma pagination_all_pages:
  assumes "\<forall>p\<in>set ps. has_next parse_qs p" and "no_next final"
    and "map_of kwargs ''yield_resps'' = None \<or> map_of kwargs ''yield_resps'' = Some (VBool False)"
    and "map_of kwargs ''max_resps'' = None"
    and "map_of skwargs ''yield_resps'' = Some y" and "truthy y"
  shows "(\<exists>w. handle_pagination_body scripted parse_qs kwargs
              \<lparr>pending = map Inr ps @ Inr final # rest, seen = []\<rparr>
            = Some \<lparr>yielded = [], outcome = Inr (VList (ps @ [final])), logged = [], world = w\<rparr>)
       \<and> (\<exists>w. handle_pagination_body scripted parse_qs skwargs
              \<lparr>pending = map Inr ps @ Inr final # rest, seen = []\<rparr>
            = Some \<lparr>yielded = ps @ [final], outcome = Inr VNone, logged = [], world = w\<rparr>)"
proof -
  have k: "map_of (AList.delete ''yield_resps'' kwargs) ''max_resps'' = None"
    using assms(4) by (simp add: delete_conv)
  have a: "pagination_loop scripted parse_qs False (VInt (- 1)) kw [] []
             \<lparr>pending = map Inr ps @ Inr final # rest, seen = []\<rparr>
         = Some (None, ps @ [final], [], \<lparr>pending = rest,
               seen = requests parse_qs kw ps @ [advance parse_qs kw ps]\<rparr>)" for kw
    using loop_pages [OF assms(1), of False "VInt (- 1)" kw "[]" "[]" "Inr final # rest" "[]"]
    by (simp add: loop_last [OF assms(2)])
  have b: "pagination_loop scripted parse_qs True VNone kw [] []
             \<lparr>pending = map Inr ps @ Inr final # rest, seen = []\<rparr>
         = Some (None, [], ps @ [final], \<lparr>pending = rest,
               seen = requests parse_qs kw ps @ [advance parse_qs kw ps]\<rparr>)" for kw
    using loop_pages [OF assms(1), of True VNone kw "[]" "[]" "Inr final # rest" "[]"]
    by (simp add: loop_last [OF assms(2)])
  show ?thesis
    using assms(3,5,6) k
    by (auto simp: handle_pagination_body_def dict_pop_eq a b)
qed

text \<open>
  Claim C1. A call in non-streaming mode should return the list of the per-page results.
  On a server with a single page and the keyword arguments \<open>limit=10\<close>, the call
  returns a generator object and sends no request. Iterating that generator yields no
  value: the list of pages is only the value of its \<open>return\<close>.
\<close>

theorem handle_pagination_call_is_generator:
  "handle_pagination_call [(''limit'', VInt 10)]
       \<lparr>pending = [Inr (page [(''results'', VList [])])], seen = []\<rparr>
     = (Inr VGenerator, \<lparr>pending = [Inr (page [(''results'', VList [])])], seen = []\<rparr>)
   \<and> handle_pagination_body scripted token_of_link [(''limit'', VInt 10)]
       \<lparr>pending = [Inr (page [(''results'', VList [])])], seen = []\<rparr>
     = Some \<lparr>yielded = [],
             outcome = Inr (VList [page [(''results'', VList [])]]),
             logged = [],
             world = \<lparr>pending = [], seen = [[(''limit'', VInt 10)]]\<rparr>\<rparr>"
  by (simp add: handle_pagination_call_def handle_pagination_body_def dict_pop_def
      pagination_loop.simps scripted_def page_def next_link_def)

text \<open>
  Claim C2, as stated: when a later page raises, the non-streaming call logs a warning.
  With one good page followed by an HTTP error, the only record logged has level
  \<open>ERROR\<close> (the source calls \<open>logger.exception\<close>): nothing is logged at level
  \<open>WARNING\<close>.
\<close>

theorem pagination_partial_failure_counterexample:
  "handle_pagination_body scripted token_of_link [(''limit'', VInt 10)]
       \<lparr>pending = [Inr (page [(''next'', VStr ''https://x/api/v1/people?__token=t'')]),
                   Inl (HTTPError 500)], seen = []\<rparr>
     = Some \<lparr>yielded = [],
             outcome = Inr (VList [page [(''next'', VStr ''https://x/api/v1/people?__token=t'')]]),
             logged = [(ERROR, PARTIAL_MSG)],
             world = \<lparr>pending = [],
                       seen = [[(''limit'', VInt 10)],
                               [(''limit'', VInt 10),
                                (''__token'', VList [VStr ''https://x/api/v1/people?__token=t''])]]\<rparr>\<rparr>
   \<and> \<not> logs_at WARNING [(ERROR, PARTIAL_MSG)]"
  by (simp add: handle_pagination_body_def dict_pop_def pagination_loop.simps scripted_def
      page_def next_link_def token_of_link_def dict_update_def logger_exception_def logs_at_def)

text \<open>
  Claim C2, amended. The pages \<open>ps\<close> have \<open>next\<close> links and the fetch after them raises
  \<open>e\<close>. Without \<open>yield_resps\<close> and \<open>max_resps\<close>, the body yields nothing; when \<open>ps\<close> is
  not empty it ends by returning \<open>ps\<close> and logs one record at level \<open>ERROR\<close>, and when
  \<open>ps\<close> is empty \<open>e\<close> propagates and nothing is logged. In streaming mode the body
  yields \<open>ps\<close>, then \<open>e\<close> propagates, and nothing is logged.
\<close>

theorem pagination_partial_failure:
  assumes "\<forall>p\<in>set ps. has_next parse_qs p"
    and "map_of kwargs ''yield_resps'' = None \<or> map_of kwargs ''yield_resps'' = Some (VBool False)"
    and "map_of kwargs ''max_resps'' = None"
    and "map_of skwargs ''yield_resps'' = Some y" and "truthy y"
  shows "(\<exists>w. handle_pagination_body scripted parse_qs kwargs
              \<lparr>pending = map Inr ps @ Inl e # rest, seen = []\<rparr>
            = Some \<lparr>yielded = [],
                    outcome = (if ps = [] then Inl e else Inr (VList ps)),
                    logged = (if ps = [] then [] else [(ERROR, PARTIAL_MSG)]),
                    world = w\<rparr>)
       \<and> (\<exists>w. handle_pagination_body scripted parse_qs skwargs
              \<lparr>pending = map Inr ps @ Inl e # rest, seen = []\<rparr>
            = Some \<lparr>yielded = ps, outcome = Inl e, logged = [], world = w\<rparr>)"
proof -
  have k: "map_of (AList.delete ''yield_resps'' kwargs) ''max_resps'' = None"
    using assms(3) by (simp add: delete_conv)
  have a: "pagination_loop scripted parse_qs False (VInt (- 1)) kw [] []
             \<lparr>pending = map Inr ps @ Inl e # rest, seen = []\<rparr>
         = Some (Some e, ps, [], \<lparr>pending = rest,
               seen = requests parse_qs kw ps @ [advance parse_qs kw ps]\<rparr>)" for kw
    using loop_pages [OF assms(1), of False "VInt (- 1)" kw "[]" "[]" "Inl e # rest" "[]"]
    by (simp add: loop_raise)
  have b: "pagination_loop scripted parse_qs True VNone kw [] []
             \<lparr>pending = map Inr ps @ Inl e # rest, seen = []\<rparr>
         = Some (Some e, [], ps, \<lparr>pending = rest,
               seen = requests parse_qs kw ps @ [advance parse_qs kw ps]\<rparr>)" for kw
    using loop_pages [OF assms(1), of True VNone kw "[]" "[]" "Inl e # rest" "[]"]
    by (simp add: loop_raise)
  show ?thesis
    using assms(2,4,5) k
    by (auto simp: handle_pagination_body_def dict_pop_eq a b logger_exception_def)
qed

theorem pagination_partial_failure_witness:
  "(\<exists>w. handle_pagination_body scripted token_of_link [(''limit'', VInt 10)]
          \<lparr>pending = map Inr [page [(''next'', VStr ''u1'')], page [(''next'', VStr ''u2'')]]
                       @ Inl (HTTPError 500) # [], seen = []\<rparr>
        = Some \<lparr>yielded = [],
                outcome = Inr (VList [page [(''next'', VStr ''u1'')], page [(''next'', VStr ''u2'')]]),
                logged = [(ERROR, PARTIAL_MSG)], world = w\<rparr>)
   \<and> (\<exists>w. handle_pagination_body scripted token_of_link
            [(''yield_resps'', VBool True), (''limit'', VInt 10)]
          \<lparr>pending = map Inr [page [(''next'', VStr ''u1'')], page [(''next'', VStr ''u2'')]]
                       @ Inl (HTTPError 500) # [], seen = []\<rparr>
        = Some \<lparr>yielded = [page [(''next'', VStr ''u1'')], page [(''next'', VStr ''u2'')]],
                outcome = Inl (HTTPError 500), logged = [], world = w\<rparr>)"
  using pagination_partial_failure
    [of "[page [(''next'', VStr ''u1'')], page [(''next'', VStr ''u2'')]]" token_of_link
        "[(''limit'', VInt 10)]" "[(''yield_resps'', VBool True), (''limit'', VInt 10)]"
        "VBool True" "HTTPError 500" "[]"]
  by (simp add: has_next_def next_link_def page_def token_of_link_def)

text \<open>
  Claim C10. In streaming mode \<open>max_resps\<close>, whatever its value, does not bound the
  stream: all pages are yielded until a page has no \<open>next\<close> link or a fetch raises. The
  key \<open>max_resps\<close> stays in the keyword arguments: the first request carries the
  caller's value and every request carries the key.
\<close>

theorem streaming_ignores_max_resps:
  assumes "\<forall>p\<in>set ps. has_next parse_qs p" and "no_next final"
    and "map_of kwargs ''yield_resps'' = Some y" and "truthy y"
    and "map_of kwargs ''max_resps'' = Some m"
  shows "(\<exists>w. handle_pagination_body scripted parse_qs kwargs
              \<lparr>pending = map Inr ps @ Inr final # rest, seen = []\<rparr>
            = Some \<lparr>yielded = ps @ [final], outcome = Inr VNone, logged = [], world = w\<rparr>
          \<and> length (seen w) = length ps + 1
          \<and> map_of (hd (seen w)) ''max_resps'' = Some m
          \<and> (\<forall>kw\<in>set (seen w). ''max_resps'' \<in> fst ` set kw))
       \<and> (\<exists>w. handle_pagination_body scripted parse_qs kwargs
              \<lparr>pending = map Inr ps @ Inl e # rest, seen = []\<rparr>
            = Some \<lparr>yielded = ps, outcome = Inl e, logged = [], world = w\<rparr>
          \<and> length (seen w) = length ps + 1
          \<and> map_of (hd (seen w)) ''max_resps'' = Some m
          \<and> (\<forall>kw\<in>set (seen w). ''max_resps'' \<in> fst ` set kw))"
proof -
  let ?kw = "AList.delete ''yield_resps'' kwargs"
  let ?seen = "requests parse_qs ?kw ps @ [advance parse_qs ?kw ps]"
  have m: "map_of ?kw ''max_resps'' = Some m"
    using assms(5) by (simp add: delete_conv)
  then have dom: "''max_resps'' \<in> fst ` set ?kw"
    by (metis map_of_eq_None_iff option.distinct(1))
  have len: "length ?seen = length ps + 1"
    by (simp add: length_requests)
  have all: "\<forall>kw\<in>set ?seen. ''max_resps'' \<in> fst ` set kw"
    using seen_keys [of _ parse_qs ?kw ps] dom by blast
  have a: "pagination_loop scripted parse_qs True VNone ?kw [] []
             \<lparr>pending = map Inr ps @ Inr final # rest, seen = []\<rparr>
         = Some (None, [], ps @ [final], \<lparr>pending = rest, seen = ?seen\<rparr>)"
    using loop_pages [OF assms(1), of True VNone ?kw "[]" "[]" "Inr final # rest" "[]"]
    by (simp add: loop_last [OF assms(2)])
  have b: "pagination_loop scripted parse_qs True VNone ?kw [] []
             \<lparr>pending = map Inr ps @ Inl e # rest, seen = []\<rparr>
         = Some (Some e, [], ps, \<lparr>pending = rest, seen = ?seen\<rparr>)"
    using loop_pages [OF assms(1), of True VNone ?kw "[]" "[]" "Inl e # rest" "[]"]
    by (simp add: loop_raise)
  have 1: "handle_pagination_body scripted parse_qs kwargs
              \<lparr>pending = map Inr ps @ Inr final # rest, seen = []\<rparr>
            = Some \<lparr>yielded = ps @ [final], outcome = Inr VNone, logged = [],
                    world = \<lparr>pending = rest, seen = ?seen\<rparr>\<rparr>"
    using assms(3,4) by (simp add: handle_pagination_body_def dict_pop_eq a)
  have 2: "handle_pagination_body scripted parse_qs kwargs
              \<lparr>pending = map Inr ps @ Inl e # rest, seen = []\<rparr>
            = Some \<lparr>yielded = ps, outcome = Inl e, logged = [],
                    world = \<lparr>pending = rest, seen = ?seen\<rparr>\<rparr>"
    using assms(3,4) by (simp add: handle_pagination_body_def dict_pop_eq b)
  have 3: "length (seen \<lparr>pending = rest, seen = ?seen\<rparr>) = length ps + 1
      \<and> map_of (hd (seen \<lparr>pending = rest, seen = ?seen\<rparr>)) ''max_resps'' = Some m
      \<and> (\<forall>kw\<in>set (seen \<lparr>pending = rest, seen = ?seen\<rparr>). ''max_resps'' \<in> fst ` set kw)"
    using len all m by (simp add: hd_seen)
  from 1 2 3 show ?thesis by blast
qed

theorem streaming_ignores_max_resps_witness:
  "(\<exists>w. handle_pagination_body scripted token_of_link
          [(''yield_resps'', VBool True), (''max_resps'', VInt 1), (''limit'', VInt 10)]
          \<lparr>pending = map Inr [page [(''next'', VStr ''u1'')], page [(''next'', VStr ''u2'')]]
                       @ Inr (page [(''results'', VList [])]) # [], seen = []\<rparr>
        = Some \<lparr>yielded = [page [(''next'', VStr ''u1'')], page [(''next'', VStr ''u2'')]]
                           @ [page [(''results'', VList [])]],
                outcome = Inr VNone, logged = [], world = w\<rparr>
      \<and> length (seen w) = length [page [(''next'', VStr ''u1'')], page [(''next'', VStr ''u2'')]] + 1
      \<and> map_of (hd (seen w)) ''max_resps'' = Some (VInt 1)
      \<and> (\<forall>kw\<in>set (seen w). ''max_resps'' \<in> fst ` set kw))
   \<and> (\<exists>w. handle_pagination_body scripted token_of_link
          [(''yield_resps'', VBool True), (''max_resps'', VInt 1), (''limit'', VInt 10)]
          \<lparr>pending = map Inr [page [(''next'', VStr ''u1'')], page [(''next'', VStr ''u2'')]]
                       @ Inl (HTTPError 500) # [], seen = []\<rparr>
        = Some \<lparr>yielded = [page [(''next'', VStr ''u1'')], page [(''next'', VStr ''u2'')]],
                outcome = Inl (HTTPError 500), logged = [], world = w\<rparr>
      \<and> length (seen w) = length [page [(''next'', VStr ''u1'')], page [(''next'', VStr ''u2'')]] + 1
      \<and> map_of (hd (seen w)) ''max_resps'' = Some (VInt 1)
      \<and> (\<forall>kw\<in>set (seen w). ''max_resps'' \<in> fst ` set kw))"
  by (rule streaming_ignores_max_resps [where y = "VBool True"])
    (simp_all add: has_next_def no_next_def next_link_def page_def token_of_link_def)


section \<open>Properties of the response processing\<close>




text \<open>
  The end-to-end examples: \<open>people.get\<close> on the body \<open>{"person": {"id": 1,
  "first_name": "A"}}\<close> returns the person with the default processor and \<open>{"id": 1}\<close>
  with \<open>resp_proc=payload_filter(["id"])\<close>.
\<close>

lemma get_person_default_processor:
  "fst (handle_resp_proc (Single (payload_filter None VNone))
      (returns (VResp 200 (Some (VDict
         [(''person'', VDict [(''id'', VInt 1), (''first_name'', VStr ''A'')])]))))
      no_attrs (only_resource_name (VStr ''person'')) None []
      \<lparr>resp_proc_args = [], session_log = [], outside = ()\<rparr>)
   = Inr (VDict [(''id'', VInt 1), (''first_name'', VStr ''A'')])"
  by (simp add: handle_resp_proc_def returns_def only_resource_name_def no_attrs_def
      payload_filter_def resolve_args_def resolve_arg_def RESP_PROC_ARGS_def lookup_def)

lemma get_person_id_filter:
  "fst (handle_resp_proc (Single (payload_filter None VNone))
      (returns (VResp 200 (Some (VDict
         [(''person'', VDict [(''id'', VInt 1), (''first_name'', VStr ''A'')])]))))
      no_attrs (only_resource_name (VStr ''person''))
      (Some (Single (payload_filter (Some (Attrs [Leaf ''id''])) VNone))) []
      \<lparr>resp_proc_args = [], session_log = [], outside = ()\<rparr>)
   = Inr (VDict [(''id'', VInt 1)])"
  by (simp add: handle_resp_proc_def returns_def only_resource_name_def no_attrs_def
      payload_filter_def resolve_args_def resolve_arg_def RESP_PROC_ARGS_def lookup_def
      handle_filter_def)

text \<open>
  A paginated endpoint method is \<open>handle_resp_proc\<close> over \<open>handle_pagination\<close>. The
  inner call returns a generator object, which is truthy and not a list, so the default
  processor is applied to it and \<open>resp.json()\<close> raises \<open>AttributeError\<close>.
\<close>

lemma paginated_endpoint_default_processor_raises:
  "fst (handle_resp_proc (Single (payload_filter None VNone)) handle_pagination_call
      (only_resource_name (VStr ''results'')) (only_resource_name (VStr ''person'')) None
      [(''limit'', VInt 10)]
      \<lparr>resp_proc_args = [], session_log = [], outside = ()\<rparr>)
   = Inl AttributeError"
  by (simp add: handle_resp_proc_def handle_pagination_call_def only_resource_name_def
      payload_filter_def resolve_args_def resolve_arg_def RESP_PROC_ARGS_def lookup_def)

text \<open>
  Claim C4. The value of \<open>resource_name\<close> bound into the processor by partial
  application should win over the attributes, and resolving should never raise. The
  endpoint has \<open>resource_name = "person"\<close>, the response body is
  \<open>{"person": {"id": 1}}\<close>, and the caller passes
  \<open>resp_proc=payload_filter(resource_name="people")\<close>, a partial: the call raises
  \<open>TypeError\<close>.
\<close>

theorem bound_resource_name_raises:
  "handle_resp_proc (Single (payload_filter None VNone))
      (returns (VResp 200 (Some (VDict [(''person'', VDict [(''id'', VInt 1)])]))))
      no_attrs (only_resource_name (VStr ''person''))
      (Some (Single (payload_filter None (VStr ''people'')))) []
      \<lparr>resp_proc_args = [], session_log = [], outside = ()\<rparr>
   = (Inl TypeError,
      \<lparr>resp_proc_args = [(''resource_name'', VStr ''person'')], session_log = [], outside = ()\<rparr>)"
  by (simp add: handle_resp_proc_def returns_def only_resource_name_def no_attrs_def
      payload_filter_def resolve_args_def resolve_arg_def RESP_PROC_ARGS_def)


text \<open>
  Claim C5, as stated: whenever the wrapped call gives a list with a falsy element, an
  error is logged. When the caller passes \<open>resp_proc=None\<close> the guard
  \<open>if resp_proc and res\<close> fails: the list is returned and nothing is logged.
\<close>

theorem batch_failure_without_processor_counterexample:
  "handle_resp_proc (Single resp_bool) (returns (VList [VResp 200 None, VResp 404 None]))
      no_attrs (only_resource_name (VStr ''person'')) (Some NoProc) []
      \<lparr>resp_proc_args = [], session_log = [], outside = ()\<rparr>
   = (Inr (VList [VResp 200 None, VResp 404 None]),
      \<lparr>resp_proc_args = [], session_log = [], outside = ()\<rparr>)
   \<and> \<not> logs_at ERROR []"
  by (simp add: handle_resp_proc_def returns_def logs_at_def)

text \<open>
  Claim C5, amended: when a response processor is in effect and the wrapped call gives a
  list of responses with at least one falsy element, no processor is applied, one record
  is logged at level \<open>ERROR\<close>, and the list is returned as it is.
\<close>

theorem batch_failure_returns_raw:
  assumes "procs_truthy (case resp_proc_kw of None \<Rightarrow> resp_proc_dflt | Some rp \<Rightarrow> rp)"
    and "f kwargs (outside st) = (Inr (VList rs), w)"
    and "\<not> list_all truthy rs"
  shows "handle_resp_proc resp_proc_dflt f f_attr self_attr resp_proc_kw kwargs st =
     (Inr (VList rs),
      st\<lparr>resp_proc_args := resolve_args f_attr self_attr (resp_proc_args st),
         session_log := session_log st @ [(ERROR, NOT_ALL_MSG)],
         outside := w\<rparr>)"
proof -
  from assms(3) have "rs \<noteq> []" by auto
  then show ?thesis
    using assms by (simp add: handle_resp_proc_def logger_error_def)
qed

theorem batch_failure_returns_raw_witness:
  "handle_resp_proc (Single resp_bool) (returns (VList [VResp 200 None, VResp 404 None]))
      no_attrs (only_resource_name (VStr ''person'')) None []
      \<lparr>resp_proc_args = [], session_log = [], outside = ()\<rparr>
   = (Inr (VList [VResp 200 None, VResp 404 None]),
      \<lparr>resp_proc_args = [(''resource_name'', VStr ''person'')],
        session_log = [(ERROR, NOT_ALL_MSG)], outside = ()\<rparr>)"
  using batch_failure_returns_raw
    [where resp_proc_kw = None and resp_proc_dflt = "Single resp_bool"
       and f = "returns (VList [VResp 200 None, VResp 404 None])" and kwargs = "[]"
       and st = "\<lparr>resp_proc_args = [], session_log = [], outside = ()\<rparr>"
       and rs = "[VResp 200 None, VResp 404 None]" and w = "()"
       and f_attr = no_attrs and self_attr = "only_resource_name (VStr ''person'')"]
  by (simp add: returns_def resolve_args_def resolve_arg_def RESP_PROC_ARGS_def
      only_resource_name_def no_attrs_def)




text \<open>
  When no processor is in effect the result of the wrapped call is returned as it is:
  nothing is resolved and nothing is logged.
\<close>

lemma handle_resp_proc_without_processor:
  assumes "\<not> procs_truthy (case resp_proc_kw of None \<Rightarrow> resp_proc_dflt | Some rp \<Rightarrow> rp)"
    and "f kwargs (outside st) = (Inr res, w)"
  shows "handle_resp_proc resp_proc_dflt f f_attr self_attr resp_proc_kw kwargs st
       = (Inr res, st\<lparr>outside := w\<rparr>)"
  using assms by (simp add: handle_resp_proc_def)




section \<open>Properties of the discount task\<close>

text \<open>The equations that evaluate float arithmetic at concrete numbers.\<close>

lemmas float_eval =
  to_double_def ilog2_def pow2_def round_half_even_def bit_length.simps int_div_100_def
  discount_value_def capital_amount_def






text \<open>
  The floats of the source at work: a redemption of 0.29 at rate 1 gives a rule of 0.28,
  a redemption of 0.575 deducts 57 cents, and a pending amount of
  10.000000000000000001 against 1000 cents is the float 10.0, passes the guard and
  redeems the whole balance.
\<close>

lemma discount_value_rounds_down:
  "discount_value (to_double (29 / 100)) (Finite 1) = Inr (to_double (- (28 / 100)))
   \<and> capital_amount (to_double (575 / 1000)) = Inr (- 57)"
  by (simp add: float_eval)


lemma guard_passes_after_rounding:
  "create_discount
      \<lparr>faults = no_faults, rule_saved = True, new_title = Inr ''NB_1_ABC'',
        exchange_rate = Inr (Finite 1)\<rparr>
      \<lparr>pending_field = Decimal (10 + 1 / 10 ^ 18), capital_amount_in_cents = 1000,
        price_rules = []\<rparr>
   = (Inr (),
      \<lparr>pending_field = Null, capital_amount_in_cents = 0,
        price_rules = [\<lparr>title = ''NB_1_ABC'', rule_value = Finite (- 10),
                        codes = [''NB_1_ABC'']\<rparr>]\<rparr>)"
  by (simp add: create_discount_def exchange_def no_faults_def float_eval)




text \<open>
  Claim C8, as stated: when the guard fails the state of the person is left unchanged.
  A person with 10.00 of capital and a pending redemption of 50 has the pending field
  cleared by the update of line 28, which runs before the guard.
\<close>

theorem create_discount_guard_counterexample:
  "snd (create_discount
      \<lparr>faults = no_faults, rule_saved = True, new_title = Inr ''NB_1_ABC'',
        exchange_rate = Inr (Finite 1)\<rparr>
      \<lparr>pending_field = Decimal 50, capital_amount_in_cents = 1000, price_rules = []\<rparr>)
   \<noteq> \<lparr>pending_field = Decimal 50, capital_amount_in_cents = 1000, price_rules = []\<rparr>"
  by (simp add: create_discount_def no_faults_def float_eval)

text \<open>
  Claim C8, amended: when the two requests before the guard succeed, the pending field
  converts to the float \<open>redemption\<close>, the balance to the float \<open>capital\<close>, and
  \<open>0 < redemption <= capital\<close> is false on these floats, \<open>create_discount\<close> returns
  without raising, creates no price rule and deducts no capital; the only change is that
  the pending field of the person has been set to \<open>None\<close>.
\<close>

theorem create_discount_guard_no_op:
  assumes "faults env GetPerson = None" and "faults env ClearPending = None"
    and "py_float (pending_field s) = Inr redemption"
    and "int_div_100 (capital_amount_in_cents s) = Inr capital"
    and "\<not> f_pos redemption \<or> \<not> f_le redemption capital"
  shows "create_discount env s = (Inr (), s\<lparr>pending_field := Null\<rparr>)"
  using assms by (auto simp: create_discount_def)

theorem create_discount_guard_no_op_witness:
  "create_discount
      \<lparr>faults = no_faults, rule_saved = True, new_title = Inr ''NB_1_ABC'',
        exchange_rate = Inr (Finite 1)\<rparr>
      \<lparr>pending_field = Decimal 50, capital_amount_in_cents = 1000, price_rules = []\<rparr>
   = (Inr (), \<lparr>pending_field = Null, capital_amount_in_cents = 1000, price_rules = []\<rparr>)"
proof -
  let ?env = "\<lparr>faults = no_faults, rule_saved = True, new_title = Inr ''NB_1_ABC'',
                 exchange_rate = Inr (Finite 1)\<rparr>"
  let ?s = "\<lparr>pending_field = Decimal 50, capital_amount_in_cents = 1000, price_rules = []\<rparr>"
  have 1: "py_float (pending_field ?s) = Inr (Finite 50)" by (simp add: float_eval)
  have 2: "int_div_100 (capital_amount_in_cents ?s) = Inr (Finite 10)" by (simp add: float_eval)
  show ?thesis
    using create_discount_guard_no_op [of ?env ?s "Finite 50" "Finite 10", OF _ _ 1 2]
    by (simp add: no_faults_def)
qed

end
